theory Spec2Isabelle
  imports Complex_Main "HOL-Library.Multiset"
begin

section \<open>The codespace client server (tools/codespace-client/server.js)\<close>

text \<open>
  A shallow embedding of the dashboard server: the process-wide session state
  \<open>appState\<close>, the set \<open>sseClients\<close> of open event streams, the lifecycle handlers
  bound on the WhatsApp client, and the HTTP request handler. Strings of the source are
  \<open>string\<close>s (one list element per UTF-16 code unit), JavaScript's \<open>null\<close> and
  \<open>undefined\<close> are \<open>None\<close>, thrown errors are values carrying the error message.
\<close>

subsection \<open>JavaScript values\<close>

text \<open>\<open>x || d\<close> on an optional string: \<open>null\<close>, \<open>undefined\<close> and \<open>''\<close> are falsy.\<close>

fun str_or :: "string option \<Rightarrow> string \<Rightarrow> string" where
  "str_or None d = d"
| "str_or (Some s) d = (if s = [] then d else s)"

text \<open>\<open>x || null\<close> on an optional string.\<close>

fun str_or_null :: "string option \<Rightarrow> string option" where
  "str_or_null None = None"
| "str_or_null (Some s) = (if s = [] then None else Some s)"

text \<open>\<open>x || 0\<close> on an optional number: \<open>0\<close> itself is falsy, so the result is the same.\<close>

fun num_or_0 :: "int option \<Rightarrow> int" where
  "num_or_0 None = 0"
| "num_or_0 (Some n) = (if n = 0 then 0 else n)"

text \<open>\<open>x || null\<close> on an optional number: \<open>0\<close> becomes \<open>null\<close>.\<close>

fun num_or_null :: "int option \<Rightarrow> int option" where
  "num_or_null None = None"
| "num_or_null (Some n) = (if n = 0 then None else Some n)"

text \<open>
  A JavaScript number: a finite double (its exact value), or one of the three non-finite
  values. \<open>Math.max\<close>, \<open>Math.min\<close> and the comparisons used by the server are exact on
  finite doubles.
\<close>

datatype jsnum = Fin real | NaN | PosInfinity | NegInfinity

text \<open>
  A parsed JSON value. An object is the list of its own properties; \<open>JSON.parse\<close> keeps
  one value for each key, so no key occurs twice.
\<close>

datatype json =
    JNull
  | JBool bool
  | JNum real
  | JStr string
  | JArr "json list"
  | JObj "(string \<times> json) list"

text \<open>
  \<open>String.prototype.includes\<close>: does \<open>sub\<close> occur in \<open>s\<close> as a contiguous run.
\<close>

fun starts_with :: "string \<Rightarrow> string \<Rightarrow> bool" where
  "starts_with s [] = True"
| "starts_with [] (c # cs) = False"
| "starts_with (d # ds) (c # cs) = (d = c \<and> starts_with ds cs)"

fun str_includes :: "string \<Rightarrow> string \<Rightarrow> bool" where
  "str_includes [] sub = (sub = [])"
| "str_includes (d # ds) sub = (starts_with (d # ds) sub \<or> str_includes ds sub)"

subsection \<open>Session state: \<open>appState\<close>, \<open>publicState\<close>, \<open>updateState\<close>\<close>

datatype status =
  Starting | Qr | Authenticated | Ready | Auth_failure | Disconnected | Launch_error

record session_info =
  pushname :: "string option"
  wid :: "string option"
  platform :: "string option"

record app_state =
  status :: status
  qr :: "string option"
  info :: "session_info option"
  authFailure :: "string option"
  disconnectedReason :: "string option"
  lastUpdateAt :: string

text \<open>The literal bound to \<open>appState\<close> at start-up; \<open>t0\<close> is the clock reading then.\<close>

definition initial_appState :: "string \<Rightarrow> app_state" where
  "initial_appState t0 =
     \<lparr>status = Starting, qr = None, info = None, authFailure = None,
      disconnectedReason = None, lastUpdateAt = t0\<rparr>"

definition publicState :: "app_state \<Rightarrow> app_state" where
  "publicState s =
     \<lparr>status = status s, qr = qr s, info = info s, authFailure = authFailure s,
      disconnectedReason = disconnectedReason s, lastUpdateAt = lastUpdateAt s\<rparr>"

text \<open>
  The argument of \<open>updateState\<close>: an object literal that mentions some of the fields.
  \<open>None\<close> is "not mentioned", \<open>Some v\<close> is "mentioned with value \<open>v\<close>" (and \<open>v\<close> may be
  \<open>null\<close>).
\<close>

record partial =
  p_status :: "status option"
  p_qr :: "string option option"
  p_info :: "session_info option option"
  p_authFailure :: "string option option"
  p_disconnectedReason :: "string option option"
  p_lastUpdateAt :: "string option"

definition no_fields :: partial where
  "no_fields =
     \<lparr>p_status = None, p_qr = None, p_info = None, p_authFailure = None,
      p_disconnectedReason = None, p_lastUpdateAt = None\<rparr>"

fun assign_field :: "'a \<Rightarrow> 'a option \<Rightarrow> 'a" where
  "assign_field old None = old"
| "assign_field old (Some v) = v"

text \<open>
  \<open>Object.assign(appState, partial, { lastUpdateAt: new Date().toISOString() })\<close>:
  the sources are copied left to right, so the time stamp \<open>now\<close> wins over a
  \<open>lastUpdateAt\<close> of the partial.
\<close>

definition assign :: "app_state \<Rightarrow> partial \<Rightarrow> string \<Rightarrow> app_state" where
  "assign s p now =
     \<lparr>status = assign_field (status s) (p_status p),
      qr = assign_field (qr s) (p_qr p),
      info = assign_field (info s) (p_info p),
      authFailure = assign_field (authFailure s) (p_authFailure p),
      disconnectedReason = assign_field (disconnectedReason s) (p_disconnectedReason p),
      lastUpdateAt = assign_field (assign_field (lastUpdateAt s) (p_lastUpdateAt p)) (Some now)\<rparr>"

subsection \<open>Chats and messages: \<open>serializeChat\<close>, \<open>serializeMessage\<close>\<close>

text \<open>The fields of the library's chat and message objects that the server reads.\<close>

record chat =
  c_id_serialized :: string
  c_id_user :: string
  c_name :: "string option"
  c_formattedTitle :: "string option"
  c_isGroup :: bool
  c_unreadCount :: "int option"
  c_timestamp :: "int option"
  c_lastMessage_body :: "string option"
  c_archived :: bool
  c_pinned :: bool

record chat_out =
  co_id :: string
  co_name :: string
  co_isGroup :: bool
  co_unreadCount :: int
  co_timestamp :: "int option"
  co_lastMessageBody :: string
  co_archived :: bool
  co_pinned :: bool

definition serializeChat :: "chat \<Rightarrow> chat_out" where
  "serializeChat c =
     \<lparr>co_id = c_id_serialized c,
      co_name = str_or (c_name c) (str_or (c_formattedTitle c) (c_id_user c)),
      co_isGroup = c_isGroup c,
      co_unreadCount = num_or_0 (c_unreadCount c),
      co_timestamp = num_or_null (c_timestamp c),
      co_lastMessageBody = str_or (c_lastMessage_body c) [],
      co_archived = c_archived c,
      co_pinned = c_pinned c\<rparr>"

record message =
  m_id_serialized :: string
  m_fromMe :: bool
  m_from :: string
  m_to :: string
  m_body :: "string option"
  m_type :: string
  m_author :: "string option"
  m_notifyName :: "string option"
  m_timestamp :: "int option"
  m_hasMedia :: bool
  m_ack :: "int option"

record message_out =
  mo_id :: string
  mo_chatId :: string
  mo_body :: string
  mo_type :: string
  mo_from :: string
  mo_to :: string
  mo_author :: "string option"
  mo_notifyName :: "string option"
  mo_fromMe :: bool
  mo_timestamp :: "int option"
  mo_hasMedia :: bool
  mo_ack :: "int option"

definition serializeMessage :: "message \<Rightarrow> message_out" where
  "serializeMessage m =
     \<lparr>mo_id = m_id_serialized m,
      mo_chatId = (if m_fromMe m then m_to m else m_from m),
      mo_body = str_or (m_body m) [],
      mo_type = m_type m,
      mo_from = m_from m,
      mo_to = m_to m,
      mo_author = str_or_null (m_author m),
      mo_notifyName = str_or_null (m_notifyName m),
      mo_fromMe = m_fromMe m,
      mo_timestamp = m_timestamp m,
      mo_hasMedia = m_hasMedia m,
      mo_ack = m_ack m\<rparr>"

subsection \<open>Event streams: \<open>sseClients\<close>, \<open>broadcast\<close>\<close>

text \<open>
  A response object is known by its identity only. \<open>sseClients\<close> is a JavaScript
  \<open>Set\<close>: it iterates in insertion order and holds no element twice, so it is a list
  kept free of duplicates by \<open>set_add\<close>.
\<close>

type_synonym chan = nat

definition set_add :: "chan \<Rightarrow> chan list \<Rightarrow> chan list" where
  "set_add c cs = (if c \<in> set cs then cs else cs @ [c])"

definition set_delete :: "chan \<Rightarrow> chan list \<Rightarrow> chan list" where
  "set_delete c cs = removeAll c cs"

text \<open>
  What is written to a stream: the retry hint, a named event, or the keep-alive comment
  of the interval timer (the timer itself is not part of this model). The data of a
  named event is the value handed to \<open>JSON.stringify\<close>.
\<close>

datatype payload = StateData app_state | MessageData message_out

datatype frame = Retry nat | NamedEvent string payload | KeepAlive

text \<open>
  The \<open>for ... of\<close> loop of \<open>broadcast\<close>. \<open>throws c\<close> says that \<open>res.write\<close> on
  channel \<open>c\<close> throws. The loop has no \<open>try\<close>: the first write that throws ends it,
  and the exception (named by its channel) leaves \<open>broadcast\<close>. The result is the list
  of completed writes and the exception, if any.
\<close>

fun write_all :: "(chan \<Rightarrow> bool) \<Rightarrow> frame \<Rightarrow> chan list \<Rightarrow> (chan \<times> frame) list \<times> chan option" where
  "write_all throws f [] = ([], None)"
| "write_all throws f (c # cs) =
     (if throws c then ([], Some c)
      else (case write_all throws f cs of (w, e) \<Rightarrow> ((c, f) # w, e)))"

definition broadcast ::
  "(chan \<Rightarrow> bool) \<Rightarrow> chan list \<Rightarrow> string \<Rightarrow> payload \<Rightarrow> (chan \<times> frame) list \<times> chan option" where
  "broadcast throws clients event data = write_all throws (NamedEvent event data) clients"

text \<open>The two process-wide variables.\<close>

record server =
  appState :: app_state
  sseClients :: "chan list"

text \<open>
  \<open>updateState\<close>: the new server, the writes made and the exception that escaped, if
  any. The state is assigned before \<open>broadcast\<close> is called, so it is kept also when a
  write throws.
\<close>

definition updateState ::
  "(chan \<Rightarrow> bool) \<Rightarrow> string \<Rightarrow> partial \<Rightarrow> server \<Rightarrow> server \<times> (chan \<times> frame) list \<times> chan option" where
  "updateState throws now p srv =
     (let s' = assign (appState srv) p now;
          srv' = srv\<lparr>appState := s'\<rparr>
      in (srv', broadcast throws (sseClients srv') ''state'' (StateData (publicState s'))))"

subsection \<open>Lifecycle handlers\<close>

text \<open>
  What the library reports in \<open>client.info\<close> when \<open>ready\<close> fires; \<open>ci_wid\<close> is
  \<open>client.info.wid?._serialized\<close>.
\<close>

record client_info =
  ci_pushname :: "string option"
  ci_wid :: "string option"
  ci_platform :: "string option"

datatype event =
    QrEv string
  | AuthenticatedEv
  | ReadyEv "client_info option"
  | AuthFailureEv "string option"
  | DisconnectedEv "string option"

fun ready_info :: "client_info option \<Rightarrow> session_info option" where
  "ready_info None = None"
| "ready_info (Some ci) =
     Some \<lparr>pushname = ci_pushname ci, wid = ci_wid ci, platform = ci_platform ci\<rparr>"

text \<open>The object literal each handler passes to \<open>updateState\<close>.\<close>

fun event_partial :: "event \<Rightarrow> partial" where
  "event_partial (QrEv q) =
     no_fields\<lparr>p_status := Some Qr, p_qr := Some (Some q), p_authFailure := Some None,
       p_disconnectedReason := Some None\<rparr>"
| "event_partial AuthenticatedEv =
     no_fields\<lparr>p_status := Some Authenticated, p_qr := Some None, p_authFailure := Some None\<rparr>"
| "event_partial (ReadyEv ci) =
     no_fields\<lparr>p_status := Some Ready, p_qr := Some None, p_info := Some (ready_info ci),
       p_authFailure := Some None, p_disconnectedReason := Some None\<rparr>"
| "event_partial (AuthFailureEv msg) =
     no_fields\<lparr>p_status := Some Auth_failure,
       p_authFailure := Some (Some (str_or msg ''Authentication failed''))\<rparr>"
| "event_partial (DisconnectedEv reason) =
     no_fields\<lparr>p_status := Some Disconnected,
       p_disconnectedReason := Some (Some (str_or reason ''Unknown reason''))\<rparr>"

text \<open>The literal of the \<open>catch\<close> of \<open>client.initialize()\<close>.\<close>

definition launch_error_partial :: "string \<Rightarrow> partial" where
  "launch_error_partial msg =
     no_fields\<lparr>p_status := Some Launch_error, p_authFailure := Some (Some msg),
       p_qr := Some None\<rparr>"

definition on_event ::
  "(chan \<Rightarrow> bool) \<Rightarrow> string \<Rightarrow> event \<Rightarrow> server \<Rightarrow> server \<times> (chan \<times> frame) list \<times> chan option" where
  "on_event throws now ev srv = updateState throws now (event_partial ev) srv"

text \<open>\<open>message_create\<close> broadcasts and leaves the state alone.\<close>

definition on_message_create ::
  "(chan \<Rightarrow> bool) \<Rightarrow> message \<Rightarrow> server \<Rightarrow> server \<times> (chan \<times> frame) list \<times> chan option" where
  "on_message_create throws m srv =
     (srv, broadcast throws (sseClients srv) ''message'' (MessageData (serializeMessage m)))"

text \<open>
  A run of lifecycle events, each with the clock reading at its arrival. An exception
  that leaves a handler goes to the emitter; the next event finds the state as the
  handler left it.
\<close>

fun replay :: "(chan \<Rightarrow> bool) \<Rightarrow> server \<Rightarrow> (event \<times> string) list \<Rightarrow> server" where
  "replay throws srv [] = srv"
| "replay throws srv ((ev, now) # rest) = replay throws (fst (on_event throws now ev srv)) rest"

text \<open>The status a lifecycle event stands for.\<close>

fun event_status :: "event \<Rightarrow> status" where
  "event_status (QrEv q) = Qr"
| "event_status AuthenticatedEv = Authenticated"
| "event_status (ReadyEv ci) = Ready"
| "event_status (AuthFailureEv msg) = Auth_failure"
| "event_status (DisconnectedEv reason) = Disconnected"

subsection \<open>Sorting, slicing and the \<open>limit\<close> parameter\<close>

text \<open>
  \<open>Array.prototype.sort\<close> with a comparator: the sort is stable, and with a consistent
  comparator its result is the one stable ordering, computed here by insertion from the
  right. An element goes before the first element it does not compare greater than.
\<close>

fun insert_by :: "('a \<Rightarrow> 'a \<Rightarrow> int) \<Rightarrow> 'a \<Rightarrow> 'a list \<Rightarrow> 'a list" where
  "insert_by cmp x [] = [x]"
| "insert_by cmp x (y # ys) = (if cmp x y \<le> 0 then x # y # ys else y # insert_by cmp x ys)"

definition js_sort :: "('a \<Rightarrow> 'a \<Rightarrow> int) \<Rightarrow> 'a list \<Rightarrow> 'a list" where
  "js_sort cmp xs = foldr (insert_by cmp) xs []"

text \<open>The comparator of the chat list: \<open>(b.timestamp || 0) - (a.timestamp || 0)\<close>.\<close>

definition chat_cmp :: "chat \<Rightarrow> chat \<Rightarrow> int" where
  "chat_cmp a b = num_or_0 (c_timestamp b) - num_or_0 (c_timestamp a)"

text \<open>The comparator of the history: \<open>(a.timestamp || 0) - (b.timestamp || 0)\<close>.\<close>

definition message_cmp :: "message \<Rightarrow> message \<Rightarrow> int" where
  "message_cmp a b = num_or_0 (m_timestamp a) - num_or_0 (m_timestamp b)"

text \<open>
  \<open>xs.slice(0, n)\<close>: \<open>n\<close> is truncated towards zero (\<open>NaN\<close> counts as 0); a negative
  \<open>n\<close> counts from the end of the array.
\<close>

definition trunc :: "real \<Rightarrow> int" where
  "trunc x = (if x < 0 then \<lceil>x\<rceil> else \<lfloor>x\<rfloor>)"

fun slice0 :: "jsnum \<Rightarrow> 'a list \<Rightarrow> 'a list" where
  "slice0 (Fin x) xs =
     (if trunc x < 0 then take (nat (int (length xs) + trunc x)) xs
      else take (nat (trunc x)) xs)"
| "slice0 NaN xs = []"
| "slice0 PosInfinity xs = xs"
| "slice0 NegInfinity xs = []"

text \<open>
  \<open>Number(parsedUrl.searchParams.get('limit') || 40)\<close>: \<open>p\<close> is what \<open>get\<close> returns
  (\<open>null\<close> when the parameter is absent), \<open>num\<close> is \<open>Number\<close> on strings.
\<close>

definition requestedLimit :: "(string \<Rightarrow> jsnum) \<Rightarrow> string option \<Rightarrow> jsnum" where
  "requestedLimit num p =
     (case p of None \<Rightarrow> Fin 40 | Some s \<Rightarrow> if s = [] then Fin 40 else num s)"

text \<open>
  \<open>Number.isFinite(requestedLimit) ? Math.max(1, Math.min(requestedLimit, 100)) : 40\<close>
\<close>

fun limit_of :: "jsnum \<Rightarrow> real" where
  "limit_of (Fin x) = max 1 (min x 100)"
| "limit_of NaN = 40"
| "limit_of PosInfinity = 40"
| "limit_of NegInfinity = 40"

subsection \<open>Request bodies: \<open>readBody\<close>\<close>

text \<open>
  The \<open>data\<close> events of a request, in order. The promise is settled once: the first
  \<open>reject\<close> or \<open>resolve\<close> decides, so a body that has grown past the limit is rejected
  whatever follows.
\<close>

fun read_chunks :: "string \<Rightarrow> string list \<Rightarrow> string + string" where
  "read_chunks body [] = Inr body"
| "read_chunks body (chunk # rest) =
     (if length (body @ chunk) > 1000000 then Inl ''Payload too large''
      else read_chunks (body @ chunk) rest)"

text \<open>
  \<open>parse\<close> is \<open>JSON.parse\<close> (\<open>None\<close> when it throws). \<open>stream_error\<close> is the message of
  an \<open>error\<close> event that ends the stream in place of \<open>end\<close>.
\<close>

definition readBody ::
  "(string \<Rightarrow> json option) \<Rightarrow> string list \<Rightarrow> string option \<Rightarrow> string + json" where
  "readBody parse chunks stream_error =
     (case read_chunks [] chunks of
        Inl e \<Rightarrow> Inl e
      | Inr body \<Rightarrow>
          (case stream_error of
             Some e \<Rightarrow> Inl e
           | None \<Rightarrow>
               if body = [] then Inr (JObj [])
               else (case parse body of
                       None \<Rightarrow> Inl ''Invalid JSON payload''
                     | Some v \<Rightarrow> Inr v)))"

text \<open>Reading a property of a parsed value other than \<open>null\<close>.\<close>

fun get_prop :: "json \<Rightarrow> string \<Rightarrow> json option" where
  "get_prop (JObj kvs) k = map_of kvs k"
| "get_prop v k = None"

text \<open>\<open>!x || typeof x !== 'string'\<close> fails exactly on a non-empty string.\<close>

fun non_empty_string :: "json option \<Rightarrow> string option" where
  "non_empty_string (Some (JStr s)) = (if s = [] then None else Some s)"
| "non_empty_string v = None"

subsection \<open>The request handler\<close>

text \<open>
  Everything the handler takes from outside the file: the built-ins it calls, the
  configuration, and the answers of the WhatsApp session (\<open>Inl\<close> the message of the
  error thrown).
\<close>

record env =
  write_throws :: "chan \<Rightarrow> bool"
  index_html :: "string option"
  JSON_parse :: "string \<Rightarrow> json option"
  Number_of :: "string \<Rightarrow> jsnum"
  decodeURIComponent :: "string \<Rightarrow> string option"
  null_destructure_message :: string
  MAX_CHAT_COUNT :: jsnum
  getChats :: "string + chat list"
  getChatById :: "string \<Rightarrow> string + chat"
  fetchMessages :: "chat \<Rightarrow> real \<Rightarrow> string + message list"
  sendMessage :: "string \<Rightarrow> string \<Rightarrow> string + message"

text \<open>
  A request after \<open>new URL\<close>: method, path name, the \<open>limit\<close> search parameter, the
  body stream, and the response object.
\<close>

record request =
  r_method :: string
  r_pathname :: string
  r_limit :: "string option"
  r_chunks :: "string list"
  r_stream_error :: "string option"
  r_res :: chan

datatype body =
    ErrorBody string
  | StateBody app_state
  | ChatsBody "chat_out list"
  | HistoryBody chat_out "message_out list"
  | SentBody message_out
  | OkBody

datatype uncaught = FileReadFailed | WriteThrew | URIMalformed

text \<open>
  What a request gets: a JSON response (\<open>safeJson\<close>), the HTML page, an open event
  stream with the frames written to it so far, or nothing because an exception left the
  handler.
\<close>

datatype outcome =
    Json nat body
  | Html string
  | EventStream "frame list"
  | Uncaught uncaught

text \<open>\<open>pathname.match(/^\/api\/chats\/([^/]+)\/messages$/)\<close>: the captured group.\<close>

definition messagePathMatch :: "string \<Rightarrow> string option" where
  "messagePathMatch p =
     (if starts_with p ''/api/chats/'' then
        (let rest = drop 11 p;
             seg = takeWhile (\<lambda>c. c \<noteq> CHR ''/'') rest;
             after = dropWhile (\<lambda>c. c \<noteq> CHR ''/'') rest
         in if seg \<noteq> [] \<and> after = ''/messages'' then Some seg else None)
      else None)"

definition not_ready :: outcome where
  "not_ready = Json 409 (ErrorBody ''Client is not ready yet.'')"

definition handle_events :: "env \<Rightarrow> server \<Rightarrow> chan \<Rightarrow> outcome \<times> server" where
  "handle_events e srv res =
     (if write_throws e res then (Uncaught WriteThrew, srv)
      else (EventStream [Retry 2000, NamedEvent ''state'' (StateData (publicState (appState srv)))],
            srv\<lparr>sseClients := set_add res (sseClients srv)\<rparr>))"

text \<open>The \<open>close\<close> event of a stream's request.\<close>

definition on_close :: "chan \<Rightarrow> server \<Rightarrow> server" where
  "on_close res srv = srv\<lparr>sseClients := set_delete res (sseClients srv)\<rparr>"

definition handle_chats :: "env \<Rightarrow> server \<Rightarrow> outcome" where
  "handle_chats e srv =
     (if status (appState srv) \<noteq> Ready then not_ready
      else (case getChats e of
              Inl err \<Rightarrow> Json 500 (ErrorBody err)
            | Inr chats \<Rightarrow>
                Json 200 (ChatsBody
                  (map serializeChat (slice0 (MAX_CHAT_COUNT e) (js_sort chat_cmp chats))))))"

definition handle_messages :: "env \<Rightarrow> server \<Rightarrow> string \<Rightarrow> string option \<Rightarrow> outcome" where
  "handle_messages e srv seg lp =
     (if status (appState srv) \<noteq> Ready then not_ready
      else (case decodeURIComponent e seg of
              None \<Rightarrow> Uncaught URIMalformed
            | Some chatId \<Rightarrow>
                (let limit = limit_of (requestedLimit (Number_of e) lp)
                 in case getChatById e chatId of
                      Inl err \<Rightarrow> Json 500 (ErrorBody err)
                    | Inr c \<Rightarrow>
                        (case fetchMessages e c limit of
                           Inl err \<Rightarrow> Json 500 (ErrorBody err)
                         | Inr messages \<Rightarrow>
                             Json 200 (HistoryBody (serializeChat c)
                               (map serializeMessage (js_sort message_cmp messages)))))))"

text \<open>The \<open>catch\<close> of the send route.\<close>

definition send_catch :: "string \<Rightarrow> outcome" where
  "send_catch err = Json (if str_includes err ''JSON'' then 400 else 500) (ErrorBody err)"

definition handle_send :: "env \<Rightarrow> server \<Rightarrow> request \<Rightarrow> outcome" where
  "handle_send e srv req =
     (if status (appState srv) \<noteq> Ready then not_ready
      else (case readBody (JSON_parse e) (r_chunks req) (r_stream_error req) of
              Inl err \<Rightarrow> send_catch err
            | Inr JNull \<Rightarrow> send_catch (null_destructure_message e)
            | Inr v \<Rightarrow>
                (case non_empty_string (get_prop v ''chatId'') of
                   None \<Rightarrow> Json 400 (ErrorBody ''chatId is required.'')
                 | Some chatId \<Rightarrow>
                     (case non_empty_string (get_prop v ''message'') of
                        None \<Rightarrow> Json 400 (ErrorBody ''message is required.'')
                      | Some msg \<Rightarrow>
                          (case sendMessage e chatId msg of
                             Inl err \<Rightarrow> send_catch err
                           | Inr sent \<Rightarrow> Json 200 (SentBody (serializeMessage sent)))))))"

text \<open>The callback of \<open>http.createServer\<close>: the routes in the order of the source.\<close>

definition handle_request :: "env \<Rightarrow> server \<Rightarrow> request \<Rightarrow> outcome \<times> server" where
  "handle_request e srv req =
     (if r_method req = ''GET'' \<and> r_pathname req = ''/'' then
        (case index_html e of None \<Rightarrow> (Uncaught FileReadFailed, srv) | Some html \<Rightarrow> (Html html, srv))
      else if r_method req = ''GET'' \<and> r_pathname req = ''/events'' then
        handle_events e srv (r_res req)
      else if r_method req = ''GET'' \<and> r_pathname req = ''/api/state'' then
        (Json 200 (StateBody (publicState (appState srv))), srv)
      else if r_method req = ''GET'' \<and> r_pathname req = ''/api/chats'' then
        (handle_chats e srv, srv)
      else if r_method req = ''GET'' \<and> messagePathMatch (r_pathname req) \<noteq> None then
        (handle_messages e srv (the (messagePathMatch (r_pathname req))) (r_limit req), srv)
      else if r_method req = ''POST'' \<and> r_pathname req = ''/api/send'' then
        (handle_send e srv req, srv)
      else if r_method req = ''GET'' \<and> r_pathname req = ''/health'' then
        (Json 200 OkBody, srv)
      else (Json 404 (ErrorBody ''Not found''), srv))"

subsection \<open>Sample inputs\<close>

text \<open>
  Concrete channels, built-ins, session answers, servers and requests on which the
  theorems below are evaluated.
\<close>

definition never_throws :: "chan \<Rightarrow> bool" where
  "never_throws c = False"

definition first_throws :: "chan \<Rightarrow> bool" where
  "first_throws c = (c = 1)"

definition sample_parse :: "string \<Rightarrow> json option" where
  \<open>sample_parse s =
     (if s = ''{}'' then Some (JObj [])
      else if s = ''{"chatId":"123"}'' then Some (JObj [(''chatId'', JStr ''123'')])
      else if s = ''{"chatId":"123","message":"hi"}''
        then Some (JObj [(''chatId'', JStr ''123''), (''message'', JStr ''hi'')])
      else if s = ''null'' then Some JNull
      else None)\<close>

definition sample_Number :: "string \<Rightarrow> jsnum" where
  "sample_Number s =
     (if s = ''0'' then Fin 0
      else if s = ''7'' then Fin 7
      else if s = ''500'' then Fin 500
      else if s = ''Infinity'' then PosInfinity
      else NaN)"

definition sample_chat :: "string \<Rightarrow> int option \<Rightarrow> chat" where
  "sample_chat i t =
     \<lparr>c_id_serialized = i, c_id_user = i, c_name = None, c_formattedTitle = None,
      c_isGroup = False, c_unreadCount = None, c_timestamp = t, c_lastMessage_body = None,
      c_archived = False, c_pinned = False\<rparr>"

definition sample_message :: "string \<Rightarrow> string \<Rightarrow> message" where
  "sample_message cid body =
     \<lparr>m_id_serialized = ''true_'' @ cid @ ''_1'', m_fromMe = True, m_from = ''me@c.us'', m_to = cid,
      m_body = Some body, m_type = ''chat'', m_author = None, m_notifyName = None,
      m_timestamp = Some 1700000000, m_hasMedia = False, m_ack = Some 0\<rparr>"

definition sample_env :: env where
  "sample_env =
     \<lparr>write_throws = never_throws,
      index_html = Some ''<html></html>'',
      JSON_parse = sample_parse,
      Number_of = sample_Number,
      decodeURIComponent = Some,
      null_destructure_message = ''Cannot destructure property of null'',
      MAX_CHAT_COUNT = Fin 2,
      getChats = Inr [sample_chat ''a'' (Some 5), sample_chat ''b'' None, sample_chat ''c'' (Some 3)],
      getChatById = (\<lambda>i. Inr (sample_chat i None)),
      fetchMessages = (\<lambda>c n. Inr []),
      sendMessage = (\<lambda>cid body. Inr (sample_message cid body))\<rparr>"

definition sample_server :: "status \<Rightarrow> chan list \<Rightarrow> server" where
  "sample_server st cs = \<lparr>appState = (initial_appState ''t0'')\<lparr>status := st\<rparr>, sseClients = cs\<rparr>"

definition sample_request :: "string \<Rightarrow> string \<Rightarrow> string option \<Rightarrow> string list \<Rightarrow> request" where
  "sample_request m p l chunks =
     \<lparr>r_method = m, r_pathname = p, r_limit = l, r_chunks = chunks, r_stream_error = None,
      r_res = 7\<rparr>"

section \<open>Properties\<close>

subsection \<open>Auxiliary facts\<close>

lemma publicState_id: "publicState s = s"
  by (simp add: publicState_def)

lemma write_all_channels:
  "map fst (fst (write_all throws f cs)) = takeWhile (\<lambda>c. \<not> throws c) cs"
  by (induction cs) (auto split: prod.splits)

lemma write_all_frames:
  "(c, g) \<in> set (fst (write_all throws f cs)) \<Longrightarrow> g = f"
  by (induction cs) (auto split: prod.splits if_splits)

lemma write_all_exception:
  "snd (write_all throws f cs) = find throws cs"
  by (induction cs) (auto split: prod.splits)

lemma write_all_no_throw:
  "\<forall>c \<in> set cs. \<not> throws c \<Longrightarrow> write_all throws f cs = (map (\<lambda>c. (c, f)) cs, None)"
  by (induction cs) auto

lemma replay_snoc:
  "replay throws srv (evs @ [(ev, now)]) = fst (on_event throws now ev (replay throws srv evs))"
  by (induction evs arbitrary: srv) auto

lemma read_chunks_large:
  "length body \<le> 1000000 \<Longrightarrow> length body + length (concat chunks) > 1000000 \<Longrightarrow>
   read_chunks body chunks = Inl ''Payload too large''"
  by (induction chunks arbitrary: body) auto

lemma read_chunks_small:
  "length body + length (concat chunks) \<le> 1000000 \<Longrightarrow>
   read_chunks body chunks = Inr (body @ concat chunks)"
  by (induction chunks arbitrary: body) auto

lemma mset_insert_by: "mset (insert_by cmp x xs) = add_mset x (mset xs)"
  by (induction xs) auto

lemma mset_js_sort: "mset (js_sort cmp xs) = mset xs"
  by (induction xs) (auto simp: js_sort_def mset_insert_by)

lemma set_insert_by: "set (insert_by cmp x xs) = insert x (set xs)"
  by (induction xs) auto

lemma sorted_insert_by_chat:
  "sorted_wrt (\<lambda>a b. num_or_0 (c_timestamp b) \<le> num_or_0 (c_timestamp a)) xs \<Longrightarrow>
   sorted_wrt (\<lambda>a b. num_or_0 (c_timestamp b) \<le> num_or_0 (c_timestamp a)) (insert_by chat_cmp x xs)"
  by (induction xs) (auto simp: set_insert_by chat_cmp_def)

lemma sorted_js_sort_chat:
  "sorted_wrt (\<lambda>a b. num_or_0 (c_timestamp b) \<le> num_or_0 (c_timestamp a)) (js_sort chat_cmp xs)"
  by (induction xs) (auto simp: js_sort_def sorted_insert_by_chat)

lemma filter_insert_by_chat:
  "filter (\<lambda>c. num_or_0 (c_timestamp c) = k) (insert_by chat_cmp x xs) =
   (if num_or_0 (c_timestamp x) = k then x # filter (\<lambda>c. num_or_0 (c_timestamp c) = k) xs
    else filter (\<lambda>c. num_or_0 (c_timestamp c) = k) xs)"
  by (induction xs) (auto simp: chat_cmp_def)

lemma stable_js_sort_chat:
  "filter (\<lambda>c. num_or_0 (c_timestamp c) = k) (js_sort chat_cmp xs) =
   filter (\<lambda>c. num_or_0 (c_timestamp c) = k) xs"
  by (induction xs) (auto simp: js_sort_def filter_insert_by_chat)

lemma messagePathMatch_prefix:
  "messagePathMatch p = Some seg \<Longrightarrow> starts_with p ''/api/chats/''"
  by (auto simp: messagePathMatch_def split: if_splits)

lemma route_state:
  "r_method req = ''GET'' \<Longrightarrow> r_pathname req = ''/api/state'' \<Longrightarrow>
   handle_request e srv req = (Json 200 (StateBody (publicState (appState srv))), srv)"
  by (simp add: handle_request_def)

lemma route_events:
  "r_method req = ''GET'' \<Longrightarrow> r_pathname req = ''/events'' \<Longrightarrow>
   handle_request e srv req = handle_events e srv (r_res req)"
  by (simp add: handle_request_def)

lemma route_chats:
  "r_method req = ''GET'' \<Longrightarrow> r_pathname req = ''/api/chats'' \<Longrightarrow>
   handle_request e srv req = (handle_chats e srv, srv)"
  by (simp add: handle_request_def)

lemma route_messages:
  assumes "r_method req = ''GET''" "messagePathMatch (r_pathname req) = Some seg"
  shows "handle_request e srv req = (handle_messages e srv seg (r_limit req), srv)"
proof -
  have p: "starts_with (r_pathname req) ''/api/chats/''"
    using assms(2) by (rule messagePathMatch_prefix)
  have "r_pathname req \<noteq> ''/''" "r_pathname req \<noteq> ''/events''"
       "r_pathname req \<noteq> ''/api/state''" "r_pathname req \<noteq> ''/api/chats''"
    using p by auto
  then show ?thesis using assms by (simp add: handle_request_def)
qed

lemma route_send:
  "r_method req = ''POST'' \<Longrightarrow> r_pathname req = ''/api/send'' \<Longrightarrow>
   handle_request e srv req = (handle_send e srv req, srv)"
  by (simp add: handle_request_def)

lemma readBody_within_limit:
  assumes "length (concat chunks) \<le> 1000000" "concat chunks \<noteq> []"
  shows "readBody parse chunks None =
           (case parse (concat chunks) of None \<Rightarrow> Inl ''Invalid JSON payload'' | Some v \<Rightarrow> Inr v)"
proof -
  have "read_chunks [] chunks = Inr (concat chunks)"
    using read_chunks_small [of "[]" chunks] assms(1) by simp
  then show ?thesis
    using assms(2) by (simp add: readBody_def del: concat_eq_Nil_conv)
qed

lemma readBody_empty:
  assumes "concat chunks = []"
  shows "readBody parse chunks None = Inr (JObj [])"
proof -
  have "length ([] :: string) + length (concat chunks) \<le> 1000000"
    unfolding assms by simp
  then have "read_chunks [] chunks = Inr ([] @ concat chunks)"
    by (rule read_chunks_small)
  then show ?thesis
    unfolding assms by (simp add: readBody_def)
qed

lemma readBody_oversized:
  assumes "length (concat chunks) > 1000000"
  shows "readBody parse chunks stream_error = Inl ''Payload too large''"
  using assms read_chunks_large [of "[]" chunks] by (simp add: readBody_def)

lemma non_empty_string_Some:
  "non_empty_string j = Some s \<longleftrightarrow> j = Some (JStr s) \<and> s \<noteq> []"
  by (cases "(j)" rule: non_empty_string.cases) auto

lemma handle_send_parsed:
  assumes "status (appState srv) = Ready"
    and "readBody (JSON_parse e) (r_chunks req) (r_stream_error req) = Inr v"
    and "v \<noteq> JNull"
  shows "handle_send e srv req =
           (case non_empty_string (get_prop v ''chatId'') of
              None \<Rightarrow> Json 400 (ErrorBody ''chatId is required.'')
            | Some chatId \<Rightarrow>
                (case non_empty_string (get_prop v ''message'') of
                   None \<Rightarrow> Json 400 (ErrorBody ''message is required.'')
                 | Some msg \<Rightarrow>
                     (case sendMessage e chatId msg of
                        Inl err \<Rightarrow> send_catch err
                      | Inr sent \<Rightarrow> Json 200 (SentBody (serializeMessage sent)))))"
  using assms by (cases v) (simp_all add: handle_send_def cong: option.case_cong)

lemma handle_send_rejected:
  assumes "status (appState srv) = Ready"
    and "readBody (JSON_parse e) (r_chunks req) (r_stream_error req) = Inl err"
  shows "handle_send e srv req = send_catch err"
  using assms by (simp add: handle_send_def)

lemma sample_chunk_length: "length (concat [replicate 1000001 (CHR ''a'')]) > 1000000"
  by (simp only: concat.simps append_Nil2 length_replicate)

subsection \<open>Readiness of the GET routes\<close>

text \<open>
  C1, as stated: every API GET route other than \<open>/\<close>, \<open>/events\<close> and \<open>/health\<close>,
  \<open>/api/state\<close> included, answers 409 while the status is not \<open>ready\<close>. The route
  \<open>GET /api/state\<close> has no such check: in status \<open>starting\<close> it answers 200 with the
  state.
\<close>

theorem state_route_counterexample:
  "status (appState (sample_server Starting [])) \<noteq> Ready \<and>
   fst (handle_request sample_env (sample_server Starting [])
          (sample_request ''GET'' ''/api/state'' None [])) =
     Json 200 (StateBody (appState (sample_server Starting []))) \<and>
   fst (handle_request sample_env (sample_server Starting [])
          (sample_request ''GET'' ''/api/state'' None [])) \<noteq>
     Json 409 (ErrorBody ''Client is not ready yet.'')"
  by (simp add: sample_server_def sample_request_def handle_request_def publicState_def
        initial_appState_def)

text \<open>
  C1, amended: \<open>GET /api/chats\<close> and \<open>GET /api/chats/{chatId}/messages\<close> answer 409
  with \<open>{error: "Client is not ready yet."}\<close> whenever the status is not \<open>ready\<close>, and
  leave the server as it is; \<open>GET /api/state\<close> answers 200 with the current state in
  every status.
\<close>

theorem not_ready_gates:
  assumes "r_method req = ''GET''"
  shows "(status (appState srv) \<noteq> Ready \<and>
            (r_pathname req = ''/api/chats'' \<or> messagePathMatch (r_pathname req) \<noteq> None)
          \<longrightarrow> handle_request e srv req = (Json 409 (ErrorBody ''Client is not ready yet.''), srv))
       \<and> (r_pathname req = ''/api/state''
          \<longrightarrow> handle_request e srv req = (Json 200 (StateBody (appState srv)), srv))"
proof -
  have a: "handle_request e srv req = (Json 409 (ErrorBody ''Client is not ready yet.''), srv)"
    if "status (appState srv) \<noteq> Ready" "r_pathname req = ''/api/chats''"
    using that assms by (simp add: route_chats handle_chats_def not_ready_def)
  have b: "handle_request e srv req = (Json 409 (ErrorBody ''Client is not ready yet.''), srv)"
    if "status (appState srv) \<noteq> Ready" "messagePathMatch (r_pathname req) \<noteq> None"
  proof -
    from that(2) obtain seg where "messagePathMatch (r_pathname req) = Some seg" by auto
    with assms have "handle_request e srv req = (handle_messages e srv seg (r_limit req), srv)"
      by (rule route_messages)
    with that(1) show ?thesis by (simp add: handle_messages_def not_ready_def)
  qed
  have c: "handle_request e srv req = (Json 200 (StateBody (appState srv)), srv)"
    if "r_pathname req = ''/api/state''"
    using that assms by (simp add: route_state publicState_id)
  from a b c show ?thesis by blast
qed

theorem not_ready_gates_witness:
  "handle_request sample_env (sample_server Qr [])
     (sample_request ''GET'' ''/api/chats/123@c.us/messages'' None []) =
     (Json 409 (ErrorBody ''Client is not ready yet.''), sample_server Qr [])
   \<and> handle_request sample_env (sample_server Qr []) (sample_request ''GET'' ''/api/chats'' None []) =
     (Json 409 (ErrorBody ''Client is not ready yet.''), sample_server Qr [])
   \<and> handle_request sample_env (sample_server Qr []) (sample_request ''GET'' ''/api/state'' None []) =
     (Json 200 (StateBody (appState (sample_server Qr []))), sample_server Qr [])"
proof -
  have m: "messagePathMatch ''/api/chats/123@c.us/messages'' \<noteq> None"
    by (simp add: messagePathMatch_def)
  have s: "status (appState (sample_server Qr [])) \<noteq> Ready"
    by (simp add: sample_server_def)
  show ?thesis
    using not_ready_gates [of "sample_request ''GET'' ''/api/chats/123@c.us/messages'' None []"
            "sample_server Qr []" sample_env]
          not_ready_gates [of "sample_request ''GET'' ''/api/chats'' None []"
            "sample_server Qr []" sample_env]
          not_ready_gates [of "sample_request ''GET'' ''/api/state'' None []"
            "sample_server Qr []" sample_env]
          m s
    by (simp add: sample_request_def)
qed

subsection \<open>Lifecycle events\<close>

text \<open>
  C2, as stated: after any run of lifecycle events every field that does not belong to
  the status is null, and \<open>qr\<close> is non-null only in status \<open>qr\<close>. The handlers of
  \<open>auth_failure\<close> and \<open>disconnected\<close> do not mention \<open>qr\<close>: after a QR code and a
  disconnection the status is \<open>disconnected\<close> and the QR code is still there.
\<close>

theorem stale_qr_counterexample:
  "status (appState (replay never_throws (sample_server Starting [])
      [(QrEv ''2@abc'', ''t1''), (DisconnectedEv (Some ''LOGOUT''), ''t2'')])) = Disconnected
   \<and> qr (appState (replay never_throws (sample_server Starting [])
      [(QrEv ''2@abc'', ''t1''), (DisconnectedEv (Some ''LOGOUT''), ''t2'')])) = Some ''2@abc''"
  by (simp add: sample_server_def initial_appState_def on_event_def updateState_def assign_def Let_def
        no_fields_def)

text \<open>
  C2, amended: after a non-empty run of lifecycle events, from any starting state, the
  status is the one of the last event and \<open>lastUpdateAt\<close> is its time stamp; and the
  fields that the last event's handler mentions have the values it gives them: after
  \<open>qr\<close> the payload is stored and \<open>authFailure\<close> and \<open>disconnectedReason\<close> are null;
  after \<open>authenticated\<close>, \<open>qr\<close> and \<open>authFailure\<close> are null; after \<open>ready\<close>, \<open>qr\<close>,
  \<open>authFailure\<close> and \<open>disconnectedReason\<close> are null and \<open>info\<close> is the session's;
  after \<open>auth_failure\<close>, \<open>authFailure\<close> is the message or the default text; after
  \<open>disconnected\<close>, \<open>disconnectedReason\<close> is the reason or the default text.
\<close>

theorem replay_last_event:
  "status (appState (replay throws srv (evs @ [(ev, now)]))) = event_status ev
   \<and> lastUpdateAt (appState (replay throws srv (evs @ [(ev, now)]))) = now
   \<and> (case ev of
        QrEv q \<Rightarrow>
          qr (appState (replay throws srv (evs @ [(ev, now)]))) = Some q
          \<and> authFailure (appState (replay throws srv (evs @ [(ev, now)]))) = None
          \<and> disconnectedReason (appState (replay throws srv (evs @ [(ev, now)]))) = None
      | AuthenticatedEv \<Rightarrow>
          qr (appState (replay throws srv (evs @ [(ev, now)]))) = None
          \<and> authFailure (appState (replay throws srv (evs @ [(ev, now)]))) = None
      | ReadyEv ci \<Rightarrow>
          qr (appState (replay throws srv (evs @ [(ev, now)]))) = None
          \<and> info (appState (replay throws srv (evs @ [(ev, now)]))) = ready_info ci
          \<and> authFailure (appState (replay throws srv (evs @ [(ev, now)]))) = None
          \<and> disconnectedReason (appState (replay throws srv (evs @ [(ev, now)]))) = None
      | AuthFailureEv msg \<Rightarrow>
          authFailure (appState (replay throws srv (evs @ [(ev, now)]))) =
            Some (str_or msg ''Authentication failed'')
      | DisconnectedEv reason \<Rightarrow>
          disconnectedReason (appState (replay throws srv (evs @ [(ev, now)]))) =
            Some (str_or reason ''Unknown reason''))"
  by (cases ev)
     (simp_all add: replay_snoc on_event_def updateState_def assign_def no_fields_def Let_def)

subsection \<open>State updates and broadcasts\<close>

text \<open>
  C3: every call of \<open>updateState\<close>, with any partial, sets \<open>lastUpdateAt\<close> to the
  current time (also when the partial has a \<open>lastUpdateAt\<close> of its own), leaves the set
  of streams alone, and is followed by exactly one \<open>broadcast\<close> of a \<open>state\<close> event whose
  data is the state just assigned: every frame written carries that state, the frames
  go to the streams in order, one each, and to all of them when no write throws.
\<close>

theorem updateState_broadcasts_once:
  assumes "updateState throws now p srv = (srv', w, e)"
  shows "lastUpdateAt (appState srv') = now
       \<and> sseClients srv' = sseClients srv
       \<and> (w, e) = broadcast throws (sseClients srv') ''state'' (StateData (appState srv'))
       \<and> map fst w = takeWhile (\<lambda>c. \<not> throws c) (sseClients srv)
       \<and> (\<forall>(c, f) \<in> set w. f = NamedEvent ''state'' (StateData (appState srv')))
       \<and> ((\<forall>c \<in> set (sseClients srv). \<not> throws c) \<longrightarrow>
            w = map (\<lambda>c. (c, NamedEvent ''state'' (StateData (appState srv')))) (sseClients srv)
            \<and> e = None)"
proof -
  define s' where "s' = assign (appState srv) p now"
  define f where "f = NamedEvent ''state'' (StateData s')"
  from assms have srv': "srv' = srv\<lparr>appState := s'\<rparr>"
    and we: "write_all throws f (sseClients srv) = (w, e)"
    by (simp_all add: updateState_def s'_def f_def broadcast_def publicState_id Let_def)
  have s: "appState srv' = s'" and cs: "sseClients srv' = sseClients srv"
    using srv' by simp_all
  have w1: "map fst w = takeWhile (\<lambda>c. \<not> throws c) (sseClients srv)"
    using write_all_channels [of throws f "sseClients srv"] by (simp add: we)
  have w2: "\<forall>(c, g) \<in> set w. g = f"
    using write_all_frames [of _ _ throws f "sseClients srv"] by (auto simp: we)
  have w3: "w = map (\<lambda>c. (c, f)) (sseClients srv) \<and> e = None"
    if "\<forall>c \<in> set (sseClients srv). \<not> throws c"
    using write_all_no_throw [OF that, of f] by (simp add: we)
  show ?thesis
  proof (intro conjI)
    show "lastUpdateAt (appState srv') = now"
      by (simp add: s s'_def assign_def)
    show "sseClients srv' = sseClients srv"
      by (rule cs)
    show "(w, e) = broadcast throws (sseClients srv') ''state'' (StateData (appState srv'))"
      using we by (simp add: broadcast_def s cs f_def)
    show "map fst w = takeWhile (\<lambda>c. \<not> throws c) (sseClients srv)"
      by (rule w1)
    show "\<forall>(c, f) \<in> set w. f = NamedEvent ''state'' (StateData (appState srv'))"
      using w2 by (simp add: s f_def)
    show "(\<forall>c \<in> set (sseClients srv). \<not> throws c) \<longrightarrow>
            w = map (\<lambda>c. (c, NamedEvent ''state'' (StateData (appState srv')))) (sseClients srv)
            \<and> e = None"
      using w3 by (simp add: s f_def)
  qed
qed

theorem updateState_broadcasts_once_witness:
  "updateState never_throws ''t1'' (no_fields\<lparr>p_qr := Some None\<rparr>) (sample_server Qr [1, 2]) =
     (\<lparr>appState = (initial_appState ''t1'')\<lparr>status := Qr\<rparr>, sseClients = [1, 2]\<rparr>,
      [(1, NamedEvent ''state'' (StateData ((initial_appState ''t1'')\<lparr>status := Qr\<rparr>))),
       (2, NamedEvent ''state'' (StateData ((initial_appState ''t1'')\<lparr>status := Qr\<rparr>)))],
      None)
   \<and> lastUpdateAt (appState \<lparr>appState = (initial_appState ''t1'')\<lparr>status := Qr\<rparr>, sseClients = [1, 2]\<rparr>) = ''t1''
   \<and> map fst
        [(1, NamedEvent ''state'' (StateData ((initial_appState ''t1'')\<lparr>status := Qr\<rparr>))),
         (2::nat, NamedEvent ''state'' (StateData ((initial_appState ''t1'')\<lparr>status := Qr\<rparr>)))] =
       sseClients (sample_server Qr [1, 2])"
proof -
  have u: "updateState never_throws ''t1'' (no_fields\<lparr>p_qr := Some None\<rparr>) (sample_server Qr [1, 2]) =
     (\<lparr>appState = (initial_appState ''t1'')\<lparr>status := Qr\<rparr>, sseClients = [1, 2]\<rparr>,
      [(1, NamedEvent ''state'' (StateData ((initial_appState ''t1'')\<lparr>status := Qr\<rparr>))),
       (2, NamedEvent ''state'' (StateData ((initial_appState ''t1'')\<lparr>status := Qr\<rparr>)))],
      None)"
    by (simp add: updateState_def sample_server_def initial_appState_def assign_def no_fields_def
          broadcast_def never_throws_def publicState_def Let_def)
  have n: "\<forall>c \<in> set (sseClients (sample_server Qr [1, 2])). \<not> never_throws c"
    by (simp add: never_throws_def)
  note r = updateState_broadcasts_once [OF u]
  have t: "lastUpdateAt (appState \<lparr>appState = (initial_appState ''t1'')\<lparr>status := Qr\<rparr>, sseClients = [1, 2]\<rparr>) = ''t1''"
    using r by (rule conjunct1)
  from r n have
    "[(1, NamedEvent ''state'' (StateData ((initial_appState ''t1'')\<lparr>status := Qr\<rparr>))),
      (2::nat, NamedEvent ''state'' (StateData ((initial_appState ''t1'')\<lparr>status := Qr\<rparr>)))] =
     map (\<lambda>c. (c, NamedEvent ''state'' (StateData (appState
        \<lparr>appState = (initial_appState ''t1'')\<lparr>status := Qr\<rparr>, sseClients = [1, 2]\<rparr>))))
       (sseClients (sample_server Qr [1, 2]))"
    by blast
  then have m: "map fst
        [(1, NamedEvent ''state'' (StateData ((initial_appState ''t1'')\<lparr>status := Qr\<rparr>))),
         (2::nat, NamedEvent ''state'' (StateData ((initial_appState ''t1'')\<lparr>status := Qr\<rparr>)))] =
       sseClients (sample_server Qr [1, 2])"
    by (simp add: sample_server_def)
  show ?thesis by (intro conjI u t m)
qed

text \<open>
  C4, as stated: a stream whose write throws does not keep the later streams from
  receiving the event, and is removed from the set. With two streams of which the
  first throws, the second receives nothing, the exception leaves the handler, and both
  streams are still in the set.
\<close>

theorem publish_interrupted_counterexample:
  "first_throws 1
   \<and> on_message_create first_throws (sample_message ''x@c.us'' ''hi'') (sample_server Ready [1, 2]) =
       (sample_server Ready [1, 2], [], Some 1)"
  by (simp add: on_message_create_def broadcast_def first_throws_def sample_server_def)

text \<open>
  C4, amended: \<open>broadcast\<close> writes the event to the streams in insertion order up to
  the first stream whose write throws; that exception leaves \<open>broadcast\<close> and the streams
  after it receive nothing. When no write throws, every stream receives the event.
  Publishing never changes the set of streams; a stream leaves the set on the \<open>close\<close>
  event of its request.
\<close>

theorem broadcast_until_first_throw:
  "map fst (fst (broadcast throws clients ev d)) = takeWhile (\<lambda>c. \<not> throws c) clients
   \<and> (\<forall>(c, f) \<in> set (fst (broadcast throws clients ev d)). f = NamedEvent ev d)
   \<and> snd (broadcast throws clients ev d) = find throws clients
   \<and> ((\<forall>c \<in> set clients. \<not> throws c) \<longrightarrow>
        broadcast throws clients ev d = (map (\<lambda>c. (c, NamedEvent ev d)) clients, None))
   \<and> sseClients (fst (updateState throws now p srv)) = sseClients srv
   \<and> sseClients (fst (on_message_create throws m srv)) = sseClients srv
   \<and> set (sseClients (on_close c srv)) = set (sseClients srv) - {c}"
proof -
  have "\<forall>(c, f) \<in> set (fst (broadcast throws clients ev d)). f = NamedEvent ev d"
    using write_all_frames [of _ _ throws "NamedEvent ev d" clients]
    by (auto simp: broadcast_def)
  then show ?thesis
    by (simp add: broadcast_def write_all_channels write_all_exception write_all_no_throw
          updateState_def on_message_create_def on_close_def set_delete_def Let_def)
qed

theorem broadcast_until_first_throw_witness:
  "broadcast never_throws [1, 2] ''message'' (MessageData (serializeMessage (sample_message ''x@c.us'' ''hi''))) =
     ([(1, NamedEvent ''message'' (MessageData (serializeMessage (sample_message ''x@c.us'' ''hi'')))),
       (2, NamedEvent ''message'' (MessageData (serializeMessage (sample_message ''x@c.us'' ''hi''))))], None)"
proof -
  have n: "\<forall>c \<in> set [1, 2]. \<not> never_throws c"
    by (simp add: never_throws_def)
  from broadcast_until_first_throw [of never_throws "[1, 2]" "''message''"
         "MessageData (serializeMessage (sample_message ''x@c.us'' ''hi''))"] n
  show ?thesis by simp
qed

subsection \<open>Subscribing to the event stream\<close>

text \<open>
  C9: a \<open>GET /events\<close> request whose response accepts writes is sent the retry hint and
  then, as its first named event, a \<open>state\<close> event with the state at that moment; the
  response joins the set of streams and the state is not changed. This holds in every
  state, in particular after any run of lifecycle events that happened before.
\<close>

theorem subscribe_sends_snapshot_first:
  assumes "r_method req = ''GET''" "r_pathname req = ''/events''" "\<not> write_throws e (r_res req)"
  shows "fst (handle_request e srv req) =
           EventStream [Retry 2000, NamedEvent ''state'' (StateData (appState srv))]
       \<and> sseClients (snd (handle_request e srv req)) = set_add (r_res req) (sseClients srv)
       \<and> r_res req \<in> set (sseClients (snd (handle_request e srv req)))
       \<and> appState (snd (handle_request e srv req)) = appState srv
       \<and> fst (handle_request e (replay (write_throws e) srv evs) req) =
           EventStream [Retry 2000,
             NamedEvent ''state'' (StateData (appState (replay (write_throws e) srv evs)))]"
  using assms by (simp add: route_events handle_events_def publicState_id set_add_def)

theorem subscribe_sends_snapshot_first_witness:
  "fst (handle_request sample_env
          (replay never_throws (sample_server Starting [1]) [(QrEv ''2@abc'', ''t1''), (AuthenticatedEv, ''t2'')])
          (sample_request ''GET'' ''/events'' None [])) =
     EventStream [Retry 2000, NamedEvent ''state'' (StateData
       \<lparr>status = Authenticated, qr = None, info = None, authFailure = None,
        disconnectedReason = None, lastUpdateAt = ''t2''\<rparr>)]
   \<and> sseClients (snd (handle_request sample_env (sample_server Starting [1])
          (sample_request ''GET'' ''/events'' None []))) = [1, 7]"
proof -
  have h: "r_method (sample_request ''GET'' ''/events'' None []) = ''GET''"
          "r_pathname (sample_request ''GET'' ''/events'' None []) = ''/events''"
          "\<not> write_throws sample_env (r_res (sample_request ''GET'' ''/events'' None []))"
    by (simp_all add: sample_request_def sample_env_def never_throws_def)
  have w: "write_throws sample_env = never_throws" by (simp add: sample_env_def)
  from subscribe_sends_snapshot_first [OF h, of "sample_server Starting [1]"
         "[(QrEv ''2@abc'', ''t1''), (AuthenticatedEv, ''t2'')]"]
  show ?thesis
    by (simp add: w sample_server_def sample_request_def set_add_def on_event_def updateState_def Let_def
          assign_def no_fields_def initial_appState_def)
qed

subsection \<open>The history route\<close>



subsection \<open>The chat list\<close>

text \<open>
  C7: for a ready session whose \<open>getChats\<close> returns \<open>chats\<close>, and a configured maximum
  that is a non-negative number, \<open>GET /api/chats\<close> answers 200 with the first
  \<open>MAX_CHAT_COUNT\<close> chats of the sorted list, each mapped by \<open>serializeChat\<close>. The
  sorted list has the same chats, in descending order of time stamp with a missing time
  stamp counted as 0 and a present one as itself, and keeps chats of equal time stamp in
  their order; chats with time stamps 5, null, 3 come out as 5, 3, null. The answer has
  as many chats as the maximum allows. \<open>serializeChat\<close> gives the Chat shape: the
  serialized id; the name, or else the formatted title, or else the user part of the id
  (an empty string counts as missing); the group flag; the unread count, 0 when missing;
  the time stamp, null when missing or 0; the body of the last message, empty when
  missing; the archived and pinned flags.
\<close>

theorem chat_list_sorted_truncated:
  assumes "status (appState srv) = Ready" and "getChats e = Inr chats"
    and "MAX_CHAT_COUNT e = Fin x" and "0 \<le> x"
    and "r_method req = ''GET''" and "r_pathname req = ''/api/chats''"
  shows "fst (handle_request e srv req) =
           Json 200 (ChatsBody (map serializeChat (take (nat \<lfloor>x\<rfloor>) (js_sort chat_cmp chats))))
       \<and> mset (js_sort chat_cmp chats) = mset chats
       \<and> sorted_wrt (\<lambda>a b. num_or_0 (c_timestamp b) \<le> num_or_0 (c_timestamp a))
            (js_sort chat_cmp chats)
       \<and> (\<forall>k. filter (\<lambda>c. num_or_0 (c_timestamp c) = k) (js_sort chat_cmp chats) =
                filter (\<lambda>c. num_or_0 (c_timestamp c) = k) chats)
       \<and> num_or_0 None = 0
       \<and> (c_timestamp a = Some 5 \<and> c_timestamp b = None \<and> c_timestamp c = Some 3 \<longrightarrow>
            js_sort chat_cmp [a, b, c] = [a, c, b])
       \<and> (\<forall>n. num_or_0 (Some n) = n)
       \<and> sorted_wrt
            (\<lambda>a b. (case c_timestamp b of None \<Rightarrow> 0 | Some t \<Rightarrow> t)
                     \<le> (case c_timestamp a of None \<Rightarrow> 0 | Some t \<Rightarrow> t))
            (js_sort chat_cmp chats)
       \<and> (\<forall>k. filter (\<lambda>c. (case c_timestamp c of None \<Rightarrow> 0 | Some t \<Rightarrow> t) = k)
                  (js_sort chat_cmp chats) =
                filter (\<lambda>c. (case c_timestamp c of None \<Rightarrow> 0 | Some t \<Rightarrow> t) = k) chats)
       \<and> length (map serializeChat (take (nat \<lfloor>x\<rfloor>) (js_sort chat_cmp chats))) =
            min (nat \<lfloor>x\<rfloor>) (length chats)
       \<and> serializeChat ch =
            \<lparr>co_id = c_id_serialized ch,
             co_name =
               (case c_name ch of
                  Some (y # ys) \<Rightarrow> y # ys
                | _ \<Rightarrow> (case c_formattedTitle ch of
                          Some (z # zs) \<Rightarrow> z # zs
                        | _ \<Rightarrow> c_id_user ch)),
             co_isGroup = c_isGroup ch,
             co_unreadCount = (case c_unreadCount ch of None \<Rightarrow> 0 | Some n \<Rightarrow> n),
             co_timestamp =
               (case c_timestamp ch of
                  None \<Rightarrow> None
                | Some t \<Rightarrow> if t = 0 then None else Some t),
             co_lastMessageBody = (case c_lastMessage_body ch of None \<Rightarrow> [] | Some s \<Rightarrow> s),
             co_archived = c_archived ch,
             co_pinned = c_pinned ch\<rparr>"
proof (intro conjI)
  have key: "num_or_0 t = (case t of None \<Rightarrow> 0 | Some n \<Rightarrow> n)" for t
    by (cases t) simp_all
  have "trunc x = \<lfloor>x\<rfloor>" "\<not> \<lfloor>x\<rfloor> < 0"
    using assms(4) by (simp_all add: trunc_def)
  then have "slice0 (MAX_CHAT_COUNT e) (js_sort chat_cmp chats) =
      take (nat \<lfloor>x\<rfloor>) (js_sort chat_cmp chats)"
    by (simp add: assms(3))
  then show "fst (handle_request e srv req) =
           Json 200 (ChatsBody (map serializeChat (take (nat \<lfloor>x\<rfloor>) (js_sort chat_cmp chats))))"
    using assms(1,2) by (simp add: route_chats [OF assms(5,6)] handle_chats_def)
  show "mset (js_sort chat_cmp chats) = mset chats"
    by (rule mset_js_sort)
  show "sorted_wrt (\<lambda>a b. num_or_0 (c_timestamp b) \<le> num_or_0 (c_timestamp a))
            (js_sort chat_cmp chats)"
    by (rule sorted_js_sort_chat)
  show "\<forall>k. filter (\<lambda>c. num_or_0 (c_timestamp c) = k) (js_sort chat_cmp chats) =
                filter (\<lambda>c. num_or_0 (c_timestamp c) = k) chats"
    by (simp add: stable_js_sort_chat)
  show "num_or_0 None = 0"
    by simp
  show "c_timestamp a = Some 5 \<and> c_timestamp b = None \<and> c_timestamp c = Some 3 \<longrightarrow>
            js_sort chat_cmp [a, b, c] = [a, c, b]"
    by (simp add: js_sort_def chat_cmp_def)
  show "\<forall>n. num_or_0 (Some n) = n"
    by simp
  show "sorted_wrt
            (\<lambda>a b. (case c_timestamp b of None \<Rightarrow> 0 | Some t \<Rightarrow> t)
                     \<le> (case c_timestamp a of None \<Rightarrow> 0 | Some t \<Rightarrow> t))
            (js_sort chat_cmp chats)"
    using sorted_js_sort_chat [of chats] by (simp only: key)
  show "\<forall>k. filter (\<lambda>c. (case c_timestamp c of None \<Rightarrow> 0 | Some t \<Rightarrow> t) = k)
                  (js_sort chat_cmp chats) =
                filter (\<lambda>c. (case c_timestamp c of None \<Rightarrow> 0 | Some t \<Rightarrow> t) = k) chats"
  proof
    fix k
    show "filter (\<lambda>c. (case c_timestamp c of None \<Rightarrow> 0 | Some t \<Rightarrow> t) = k)
                  (js_sort chat_cmp chats) =
                filter (\<lambda>c. (case c_timestamp c of None \<Rightarrow> 0 | Some t \<Rightarrow> t) = k) chats"
      using stable_js_sort_chat [of k chats] by (simp only: key)
  qed
  have "length (js_sort chat_cmp chats) = length chats"
    using mset_js_sort [of chat_cmp chats] by (metis size_mset)
  then show "length (map serializeChat (take (nat \<lfloor>x\<rfloor>) (js_sort chat_cmp chats))) =
            min (nat \<lfloor>x\<rfloor>) (length chats)"
    by (simp add: min.commute)
  show "serializeChat ch =
            \<lparr>co_id = c_id_serialized ch,
             co_name =
               (case c_name ch of
                  Some (y # ys) \<Rightarrow> y # ys
                | _ \<Rightarrow> (case c_formattedTitle ch of
                          Some (z # zs) \<Rightarrow> z # zs
                        | _ \<Rightarrow> c_id_user ch)),
             co_isGroup = c_isGroup ch,
             co_unreadCount = (case c_unreadCount ch of None \<Rightarrow> 0 | Some n \<Rightarrow> n),
             co_timestamp =
               (case c_timestamp ch of
                  None \<Rightarrow> None
                | Some t \<Rightarrow> if t = 0 then None else Some t),
             co_lastMessageBody = (case c_lastMessage_body ch of None \<Rightarrow> [] | Some s \<Rightarrow> s),
             co_archived = c_archived ch,
             co_pinned = c_pinned ch\<rparr>"
    by (simp add: serializeChat_def split: option.splits list.splits)
qed

theorem chat_list_sorted_truncated_witness:
  "fst (handle_request sample_env (sample_server Ready []) (sample_request ''GET'' ''/api/chats'' None [])) =
     Json 200 (ChatsBody
       [serializeChat (sample_chat ''a'' (Some 5)), serializeChat (sample_chat ''c'' (Some 3))])
   \<and> js_sort chat_cmp [sample_chat ''a'' (Some 5), sample_chat ''b'' None, sample_chat ''c'' (Some 3)] =
       [sample_chat ''a'' (Some 5), sample_chat ''c'' (Some 3), sample_chat ''b'' None]
   \<and> fst (handle_request sample_env (sample_server Ready []) (sample_request ''GET'' ''/api/chats'' None [])) =
     Json 200 (ChatsBody
       [\<lparr>co_id = ''a'', co_name = ''a'', co_isGroup = False, co_unreadCount = 0,
         co_timestamp = Some 5, co_lastMessageBody = [], co_archived = False, co_pinned = False\<rparr>,
        \<lparr>co_id = ''c'', co_name = ''c'', co_isGroup = False, co_unreadCount = 0,
         co_timestamp = Some 3, co_lastMessageBody = [], co_archived = False, co_pinned = False\<rparr>])
   \<and> serializeChat
        ((sample_chat ''b'' (Some 0))
           \<lparr>c_name := Some [], c_formattedTitle := Some ''Bea'', c_isGroup := True,
            c_unreadCount := Some 4, c_lastMessage_body := Some ''hello'', c_pinned := True\<rparr>) =
       \<lparr>co_id = ''b'', co_name = ''Bea'', co_isGroup = True, co_unreadCount = 4,
        co_timestamp = None, co_lastMessageBody = ''hello'', co_archived = False, co_pinned = True\<rparr>"
proof -
  have h: "status (appState (sample_server Ready [])) = Ready"
    "getChats sample_env = Inr [sample_chat ''a'' (Some 5), sample_chat ''b'' None, sample_chat ''c'' (Some 3)]"
    "MAX_CHAT_COUNT sample_env = Fin 2" "(0::real) \<le> 2"
    "r_method (sample_request ''GET'' ''/api/chats'' None []) = ''GET''"
    "r_pathname (sample_request ''GET'' ''/api/chats'' None []) = ''/api/chats''"
    by (simp_all add: sample_server_def sample_env_def sample_request_def)
  have t: "c_timestamp (sample_chat ''a'' (Some 5)) = Some 5 \<and> c_timestamp (sample_chat ''b'' None) = None
     \<and> c_timestamp (sample_chat ''c'' (Some 3)) = Some 3"
    by (simp add: sample_chat_def)
  note r = chat_list_sorted_truncated [OF h, where a = "sample_chat ''a'' (Some 5)"
      and b = "sample_chat ''b'' None" and c = "sample_chat ''c'' (Some 3)"]
  from r [where ch = "sample_chat ''a'' (Some 5)"] t
  have s: "js_sort chat_cmp [sample_chat ''a'' (Some 5), sample_chat ''b'' None, sample_chat ''c'' (Some 3)] =
       [sample_chat ''a'' (Some 5), sample_chat ''c'' (Some 3), sample_chat ''b'' None]"
    by blast
  from r [where ch = "sample_chat ''a'' (Some 5)"]
  have "fst (handle_request sample_env (sample_server Ready []) (sample_request ''GET'' ''/api/chats'' None [])) =
     Json 200 (ChatsBody (map serializeChat (take (nat \<lfloor>2::real\<rfloor>)
       (js_sort chat_cmp [sample_chat ''a'' (Some 5), sample_chat ''b'' None, sample_chat ''c'' (Some 3)]))))"
    by (rule conjunct1)
  then have f: "fst (handle_request sample_env (sample_server Ready []) (sample_request ''GET'' ''/api/chats'' None [])) =
     Json 200 (ChatsBody
       [serializeChat (sample_chat ''a'' (Some 5)), serializeChat (sample_chat ''c'' (Some 3))])"
    unfolding s by (simp add: numeral_2_eq_2)
  have shape: "serializeChat ch =
            \<lparr>co_id = c_id_serialized ch,
             co_name =
               (case c_name ch of
                  Some (y # ys) \<Rightarrow> y # ys
                | _ \<Rightarrow> (case c_formattedTitle ch of
                          Some (z # zs) \<Rightarrow> z # zs
                        | _ \<Rightarrow> c_id_user ch)),
             co_isGroup = c_isGroup ch,
             co_unreadCount = (case c_unreadCount ch of None \<Rightarrow> 0 | Some n \<Rightarrow> n),
             co_timestamp =
               (case c_timestamp ch of
                  None \<Rightarrow> None
                | Some t \<Rightarrow> if t = 0 then None else Some t),
             co_lastMessageBody = (case c_lastMessage_body ch of None \<Rightarrow> [] | Some s \<Rightarrow> s),
             co_archived = c_archived ch,
             co_pinned = c_pinned ch\<rparr>" for ch
    using r [where ch = ch] by blast
  have g: "fst (handle_request sample_env (sample_server Ready []) (sample_request ''GET'' ''/api/chats'' None [])) =
     Json 200 (ChatsBody
       [\<lparr>co_id = ''a'', co_name = ''a'', co_isGroup = False, co_unreadCount = 0,
         co_timestamp = Some 5, co_lastMessageBody = [], co_archived = False, co_pinned = False\<rparr>,
        \<lparr>co_id = ''c'', co_name = ''c'', co_isGroup = False, co_unreadCount = 0,
         co_timestamp = Some 3, co_lastMessageBody = [], co_archived = False, co_pinned = False\<rparr>])"
    unfolding f shape by (simp add: sample_chat_def)
  have b: "serializeChat
        ((sample_chat ''b'' (Some 0))
           \<lparr>c_name := Some [], c_formattedTitle := Some ''Bea'', c_isGroup := True,
            c_unreadCount := Some 4, c_lastMessage_body := Some ''hello'', c_pinned := True\<rparr>) =
       \<lparr>co_id = ''b'', co_name = ''Bea'', co_isGroup = True, co_unreadCount = 4,
        co_timestamp = None, co_lastMessageBody = ''hello'', co_archived = False, co_pinned = True\<rparr>"
    unfolding shape by (simp add: sample_chat_def)
  show ?thesis by (intro conjI f s g b)
qed

subsection \<open>The send route\<close>

text \<open>
  C10: on \<open>POST /api/send\<close> the status is checked before the body is read: when it is
  not \<open>ready\<close> the answer is 409 with \<open>{error: "Client is not ready yet."}\<close> whatever
  the body, the parser and the session are, and the server is left as it is. When the
  status is \<open>ready\<close>, a body with no characters counts as the empty object and the
  answer is 400 with \<open>{error: "chatId is required."}\<close>, whatever the parser does.
\<close>

theorem send_ready_check_first:
  assumes "r_method req = ''POST''" and "r_pathname req = ''/api/send''"
  shows "(status (appState srv) \<noteq> Ready \<longrightarrow>
            handle_request e srv req = (Json 409 (ErrorBody ''Client is not ready yet.''), srv))
       \<and> (status (appState srv) = Ready \<and> concat (r_chunks req) = [] \<and> r_stream_error req = None \<longrightarrow>
            handle_request e srv req = (Json 400 (ErrorBody ''chatId is required.''), srv))"
proof -
  have r: "handle_request e srv req = (handle_send e srv req, srv)"
    using assms by (rule route_send)
  have a: "handle_send e srv req = Json 409 (ErrorBody ''Client is not ready yet.'')"
    if "status (appState srv) \<noteq> Ready"
    using that by (simp add: handle_send_def not_ready_def)
  have b: "handle_send e srv req = Json 400 (ErrorBody ''chatId is required.'')"
    if "status (appState srv) = Ready" "concat (r_chunks req) = []" "r_stream_error req = None"
  proof -
    have "readBody (JSON_parse e) (r_chunks req) (r_stream_error req) = Inr (JObj [])"
      using readBody_empty [OF that(2)] that(3) by simp
    from handle_send_parsed [OF that(1) this] show ?thesis by simp
  qed
  from a b show ?thesis unfolding r by blast
qed

theorem send_ready_check_first_witness:
  \<open>handle_request sample_env (sample_server Authenticated [])
      (sample_request ''POST'' ''/api/send'' None [''{"chatId":'']) =
     (Json 409 (ErrorBody ''Client is not ready yet.''), sample_server Authenticated [])
   \<and> handle_request sample_env (sample_server Authenticated [])
      (sample_request ''POST'' ''/api/send'' None [replicate 1000001 (CHR ''a'')]) =
     (Json 409 (ErrorBody ''Client is not ready yet.''), sample_server Authenticated [])
   \<and> handle_request sample_env (sample_server Authenticated [])
      (sample_request ''POST'' ''/api/send'' None [''{}'']) =
     (Json 409 (ErrorBody ''Client is not ready yet.''), sample_server Authenticated [])
   \<and> handle_request sample_env (sample_server Ready [])
      (sample_request ''POST'' ''/api/send'' None []) =
     (Json 400 (ErrorBody ''chatId is required.''), sample_server Ready [])\<close>
proof -
  have s: "status (appState (sample_server Authenticated [])) \<noteq> Ready"
          "status (appState (sample_server Ready [])) = Ready"
    by (simp_all add: sample_server_def)
  have m: "r_method (sample_request ''POST'' ''/api/send'' None cs) = ''POST''"
          "r_pathname (sample_request ''POST'' ''/api/send'' None cs) = ''/api/send''" for cs
    by (simp_all add: sample_request_def)
  have c: "concat (r_chunks (sample_request ''POST'' ''/api/send'' None [])) = []"
          "r_stream_error (sample_request ''POST'' ''/api/send'' None []) = None"
    by (simp_all add: sample_request_def)
  have a: "handle_request sample_env (sample_server Authenticated [])
      (sample_request ''POST'' ''/api/send'' None cs) =
     (Json 409 (ErrorBody ''Client is not ready yet.''), sample_server Authenticated [])" for cs
    using send_ready_check_first [OF m(1) [of cs] m(2) [of cs], of "sample_server Authenticated []" sample_env] s(1)
    by blast
  have b: "handle_request sample_env (sample_server Ready [])
      (sample_request ''POST'' ''/api/send'' None []) =
     (Json 400 (ErrorBody ''chatId is required.''), sample_server Ready [])"
    using send_ready_check_first [OF m(1) [of "[]"] m(2) [of "[]"], of "sample_server Ready []" sample_env] s(2) c
    by blast
  show ?thesis by (intro conjI a b)
qed

text \<open>
  C8: on \<open>POST /api/send\<close> in status \<open>ready\<close>, with a non-empty body within the size
  limit: a body that parses to \<open>{}\<close> is answered 400 \<open>chatId is required.\<close>; one that
  parses to \<open>{"chatId": "123"}\<close> is answered 400 \<open>message is required.\<close>; one that
  does not parse is answered 400 \<open>Invalid JSON payload\<close>. In general a parsed value other
  than \<open>null\<close> whose \<open>chatId\<close> is not a non-empty string gets the first answer, one
  whose \<open>chatId\<close> is a non-empty string and whose \<open>message\<close> is not gets the second,
  and only when both are non-empty strings is \<open>sendMessage\<close> called, its result
  deciding the answer; a 200 answer with the sent message arises in no other way.
\<close>

theorem send_validation:
  assumes "status (appState srv) = Ready"
    and "r_method req = ''POST''" and "r_pathname req = ''/api/send''"
    and "r_stream_error req = None"
    and "length (concat (r_chunks req)) \<le> 1000000" and "concat (r_chunks req) \<noteq> []"
  shows "(JSON_parse e (concat (r_chunks req)) = Some (JObj []) \<longrightarrow>
            fst (handle_request e srv req) = Json 400 (ErrorBody ''chatId is required.''))
       \<and> (JSON_parse e (concat (r_chunks req)) = Some (JObj [(''chatId'', JStr ''123'')]) \<longrightarrow>
            fst (handle_request e srv req) = Json 400 (ErrorBody ''message is required.''))
       \<and> (JSON_parse e (concat (r_chunks req)) = None \<longrightarrow>
            fst (handle_request e srv req) = Json 400 (ErrorBody ''Invalid JSON payload''))
       \<and> (\<forall>v. JSON_parse e (concat (r_chunks req)) = Some v \<and> v \<noteq> JNull
              \<and> (\<nexists>s. get_prop v ''chatId'' = Some (JStr s) \<and> s \<noteq> []) \<longrightarrow>
            fst (handle_request e srv req) = Json 400 (ErrorBody ''chatId is required.''))
       \<and> (\<forall>v s. JSON_parse e (concat (r_chunks req)) = Some v
              \<and> get_prop v ''chatId'' = Some (JStr s) \<and> s \<noteq> []
              \<and> (\<nexists>t. get_prop v ''message'' = Some (JStr t) \<and> t \<noteq> []) \<longrightarrow>
            fst (handle_request e srv req) = Json 400 (ErrorBody ''message is required.''))
       \<and> (\<forall>v s t. JSON_parse e (concat (r_chunks req)) = Some v
              \<and> get_prop v ''chatId'' = Some (JStr s) \<and> s \<noteq> []
              \<and> get_prop v ''message'' = Some (JStr t) \<and> t \<noteq> [] \<longrightarrow>
            fst (handle_request e srv req) =
              (case sendMessage e s t of
                 Inl err \<Rightarrow> Json (if str_includes err ''JSON'' then 400 else 500) (ErrorBody err)
               | Inr sent \<Rightarrow> Json 200 (SentBody (serializeMessage sent))))
       \<and> (\<forall>sent. fst (handle_request e srv req) = Json 200 (SentBody sent) \<longrightarrow>
            (\<exists>v s t. JSON_parse e (concat (r_chunks req)) = Some v
              \<and> get_prop v ''chatId'' = Some (JStr s) \<and> s \<noteq> []
              \<and> get_prop v ''message'' = Some (JStr t) \<and> t \<noteq> []))"
proof -
  let ?b = "concat (r_chunks req)"
  let ?out = "fst (handle_request e srv req)"
  have r: "?out = handle_send e srv req"
    using assms(2,3) by (simp add: route_send)
  have rb: "readBody (JSON_parse e) (r_chunks req) (r_stream_error req) =
      (case JSON_parse e ?b of None \<Rightarrow> Inl ''Invalid JSON payload'' | Some v \<Rightarrow> Inr v)"
    using readBody_within_limit [OF assms(5,6)] assms(4) by simp
  have bad: "?out = Json 400 (ErrorBody ''Invalid JSON payload'')" if "JSON_parse e ?b = None"
  proof -
    have "readBody (JSON_parse e) (r_chunks req) (r_stream_error req) = Inl ''Invalid JSON payload''"
      using rb that by simp
    from handle_send_rejected [OF assms(1) this] show ?thesis
      by (simp add: r send_catch_def)
  qed
  have null: "handle_send e srv req = send_catch (null_destructure_message e)"
    if "JSON_parse e ?b = Some JNull"
    using rb that assms(1) by (simp add: handle_send_def)
  have parsed: "?out =
      (case non_empty_string (get_prop v ''chatId'') of
         None \<Rightarrow> Json 400 (ErrorBody ''chatId is required.'')
       | Some chatId \<Rightarrow>
           (case non_empty_string (get_prop v ''message'') of
              None \<Rightarrow> Json 400 (ErrorBody ''message is required.'')
            | Some msg \<Rightarrow>
                (case sendMessage e chatId msg of
                   Inl err \<Rightarrow> send_catch err
                 | Inr sent \<Rightarrow> Json 200 (SentBody (serializeMessage sent)))))"
    if "JSON_parse e ?b = Some v" "v \<noteq> JNull" for v
  proof -
    have "readBody (JSON_parse e) (r_chunks req) (r_stream_error req) = Inr v"
      using rb that(1) by simp
    from handle_send_parsed [OF assms(1) this that(2)] show ?thesis
      by (simp add: r)
  qed
  have no_chat: "?out = Json 400 (ErrorBody ''chatId is required.'')"
    if "JSON_parse e ?b = Some v" "v \<noteq> JNull"
       "\<nexists>s. get_prop v ''chatId'' = Some (JStr s) \<and> s \<noteq> []" for v
  proof -
    have "non_empty_string (get_prop v ''chatId'') = None"
      using that(3) non_empty_string_Some [of "get_prop v ''chatId''"]
      by (cases "non_empty_string (get_prop v ''chatId'')") auto
    then show ?thesis using parsed [OF that(1,2)] by simp
  qed
  have no_msg: "?out = Json 400 (ErrorBody ''message is required.'')"
    if "JSON_parse e ?b = Some v" "get_prop v ''chatId'' = Some (JStr s)" "s \<noteq> []"
       "\<nexists>t. get_prop v ''message'' = Some (JStr t) \<and> t \<noteq> []" for v s
  proof -
    have v: "v \<noteq> JNull" using that(2) by auto
    have c: "non_empty_string (get_prop v ''chatId'') = Some s"
      using that(2,3) by (simp add: non_empty_string_Some)
    have "non_empty_string (get_prop v ''message'') = None"
      using that(4) non_empty_string_Some [of "get_prop v ''message''"]
      by (cases "non_empty_string (get_prop v ''message'')") auto
    then show ?thesis using parsed [OF that(1) v] c by simp
  qed
  have both: "?out =
      (case sendMessage e s t of
         Inl err \<Rightarrow> Json (if str_includes err ''JSON'' then 400 else 500) (ErrorBody err)
       | Inr sent \<Rightarrow> Json 200 (SentBody (serializeMessage sent)))"
    if "JSON_parse e ?b = Some v" "get_prop v ''chatId'' = Some (JStr s)" "s \<noteq> []"
       "get_prop v ''message'' = Some (JStr t)" "t \<noteq> []" for v s t
  proof -
    have v: "v \<noteq> JNull" using that(2) by auto
    have c: "non_empty_string (get_prop v ''chatId'') = Some s"
      using that(2,3) by (simp add: non_empty_string_Some)
    have m: "non_empty_string (get_prop v ''message'') = Some t"
      using that(4,5) by (simp add: non_empty_string_Some)
    show ?thesis using parsed [OF that(1) v] c m by (simp add: send_catch_def split: sum.splits)
  qed
  have only: "\<exists>v s t. JSON_parse e ?b = Some v
              \<and> get_prop v ''chatId'' = Some (JStr s) \<and> s \<noteq> []
              \<and> get_prop v ''message'' = Some (JStr t) \<and> t \<noteq> []"
    if ok: "?out = Json 200 (SentBody sent)" for sent
  proof (cases "JSON_parse e ?b")
    case None
    with bad ok show ?thesis by simp
  next
    case (Some v)
    show ?thesis
    proof (cases "v = JNull")
      case True
      with Some null r ok show ?thesis by (simp add: send_catch_def)
    next
      case False
      from parsed [OF Some False] ok
      obtain s t where "non_empty_string (get_prop v ''chatId'') = Some s"
        "non_empty_string (get_prop v ''message'') = Some t"
        by (auto split: option.splits)
      then show ?thesis using Some by (auto simp: non_empty_string_Some)
    qed
  qed
  have empty_obj: "?out = Json 400 (ErrorBody ''chatId is required.'')"
    if "JSON_parse e ?b = Some (JObj [])"
    using no_chat [OF that] by simp
  have chat_only: "?out = Json 400 (ErrorBody ''message is required.'')"
    if "JSON_parse e ?b = Some (JObj [(''chatId'', JStr ''123'')])"
    using no_msg [OF that, of "''123''"] by simp
  show ?thesis
  proof (intro conjI)
    show "\<forall>sent. ?out = Json 200 (SentBody sent) \<longrightarrow>
            (\<exists>v s t. JSON_parse e ?b = Some v
              \<and> get_prop v ''chatId'' = Some (JStr s) \<and> s \<noteq> []
              \<and> get_prop v ''message'' = Some (JStr t) \<and> t \<noteq> [])"
      using only by blast
  qed (use empty_obj chat_only bad no_chat no_msg both in blast)+
qed

theorem send_validation_witness:
  \<open>fst (handle_request sample_env (sample_server Ready [])
          (sample_request ''POST'' ''/api/send'' None [''{}''])) =
     Json 400 (ErrorBody ''chatId is required.'')
   \<and> fst (handle_request sample_env (sample_server Ready [])
          (sample_request ''POST'' ''/api/send'' None [''{"chatId":"123"}''])) =
     Json 400 (ErrorBody ''message is required.'')
   \<and> fst (handle_request sample_env (sample_server Ready [])
          (sample_request ''POST'' ''/api/send'' None [''{"chatId":'']))  =
     Json 400 (ErrorBody ''Invalid JSON payload'')
   \<and> fst (handle_request sample_env (sample_server Ready [])
          (sample_request ''POST'' ''/api/send'' None [''{"chatId":"123","message":"hi"}''])) =
     Json 200 (SentBody (serializeMessage (sample_message ''123'' ''hi'')))\<close>
proof -
  have s: "status (appState (sample_server Ready [])) = Ready"
    by (simp add: sample_server_def)
  have m: "r_method (sample_request ''POST'' ''/api/send'' None cs) = ''POST''"
          "r_pathname (sample_request ''POST'' ''/api/send'' None cs) = ''/api/send''"
          "r_stream_error (sample_request ''POST'' ''/api/send'' None cs) = None" for cs
    by (simp_all add: sample_request_def)
  have c: "r_chunks (sample_request ''POST'' ''/api/send'' None cs) = cs" for cs
    by (simp add: sample_request_def)
  have p: \<open>JSON_parse sample_env (concat [''{}'']) = Some (JObj [])\<close>
          \<open>JSON_parse sample_env (concat [''{"chatId":"123"}'']) = Some (JObj [(''chatId'', JStr ''123'')])\<close>
          \<open>JSON_parse sample_env (concat [''{"chatId":'']) = None\<close>
          \<open>JSON_parse sample_env (concat [''{"chatId":"123","message":"hi"}'']) =
             Some (JObj [(''chatId'', JStr ''123''), (''message'', JStr ''hi'')])\<close>
    by (simp_all add: sample_env_def sample_parse_def)
  have snd: "sendMessage sample_env ''123'' ''hi'' = Inr (sample_message ''123'' ''hi'')"
    by (simp add: sample_env_def)
  have a: \<open>fst (handle_request sample_env (sample_server Ready [])
          (sample_request ''POST'' ''/api/send'' None [''{}''])) =
     Json 400 (ErrorBody ''chatId is required.'')\<close>
    using send_validation [OF s m, of "[''{}'']" sample_env] p(1) by (simp add: c)
  have b: \<open>fst (handle_request sample_env (sample_server Ready [])
          (sample_request ''POST'' ''/api/send'' None [''{"chatId":"123"}''])) =
     Json 400 (ErrorBody ''message is required.'')\<close>
    using send_validation [OF s m, of \<open>[''{"chatId":"123"}'']\<close> sample_env] p(2) by (simp add: c)
  have d: \<open>fst (handle_request sample_env (sample_server Ready [])
          (sample_request ''POST'' ''/api/send'' None [''{"chatId":'']))  =
     Json 400 (ErrorBody ''Invalid JSON payload'')\<close>
    using send_validation [OF s m, of \<open>[''{"chatId":'']\<close> sample_env] p(3) by (simp add: c)
  have e: \<open>fst (handle_request sample_env (sample_server Ready [])
          (sample_request ''POST'' ''/api/send'' None [''{"chatId":"123","message":"hi"}''])) =
     Json 200 (SentBody (serializeMessage (sample_message ''123'' ''hi'')))\<close>
    using send_validation [OF s m, of \<open>[''{"chatId":"123","message":"hi"}'']\<close> sample_env] p(4) snd
    by (simp add: c)
  show ?thesis by (intro conjI a b d e)
qed

text \<open>
  C5, as stated: in status \<open>ready\<close> a body over the size limit is answered 400, like a
  missing field or malformed JSON. The \<open>catch\<close> of the send route answers 400 only for
  error messages that contain \<open>JSON\<close>; the message of an oversized body is
  \<open>Payload too large\<close>, and a body of 1000001 characters is answered 500.
\<close>

theorem oversized_body_counterexample:
  "fst (handle_request sample_env (sample_server Ready [])
          (sample_request ''POST'' ''/api/send'' None [replicate 1000001 (CHR ''a'')])) =
     Json 500 (ErrorBody ''Payload too large'')"
proof -
  have "readBody (JSON_parse sample_env) [replicate 1000001 (CHR ''a'')] None =
          Inl ''Payload too large''"
    using sample_chunk_length by (rule readBody_oversized)
  then have "handle_send sample_env (sample_server Ready [])
          (sample_request ''POST'' ''/api/send'' None [replicate 1000001 (CHR ''a'')]) =
        send_catch ''Payload too large''"
    by (intro handle_send_rejected) (simp_all add: sample_server_def sample_request_def)
  then show ?thesis
    by (simp add: route_send sample_request_def send_catch_def)
qed

text \<open>
  C5, amended: on \<open>POST /api/send\<close> in status \<open>ready\<close>, a body of more than 1000000
  characters is answered 500 with \<open>{error: "Payload too large"}\<close>; a body within the
  limit that does not parse is answered 400 with \<open>{error: "Invalid JSON payload"}\<close>, and
  one that parses to \<open>{}\<close> is answered 400 with \<open>{error: "chatId is required."}\<close>.
\<close>

theorem send_body_errors:
  assumes "status (appState srv) = Ready"
    and "r_method req = ''POST''" and "r_pathname req = ''/api/send''"
  shows "(length (concat (r_chunks req)) > 1000000 \<longrightarrow>
            fst (handle_request e srv req) = Json 500 (ErrorBody ''Payload too large''))
       \<and> (length (concat (r_chunks req)) \<le> 1000000 \<and> concat (r_chunks req) \<noteq> []
            \<and> r_stream_error req = None \<and> JSON_parse e (concat (r_chunks req)) = None \<longrightarrow>
            fst (handle_request e srv req) = Json 400 (ErrorBody ''Invalid JSON payload''))
       \<and> (length (concat (r_chunks req)) \<le> 1000000 \<and> concat (r_chunks req) \<noteq> []
            \<and> r_stream_error req = None \<and> JSON_parse e (concat (r_chunks req)) = Some (JObj []) \<longrightarrow>
            fst (handle_request e srv req) = Json 400 (ErrorBody ''chatId is required.''))"
proof -
  have r: "fst (handle_request e srv req) = handle_send e srv req"
    using assms(2,3) by (simp add: route_send)
  have a: "handle_send e srv req = Json 500 (ErrorBody ''Payload too large'')"
    if "length (concat (r_chunks req)) > 1000000"
    using handle_send_rejected [OF assms(1) readBody_oversized [OF that]]
    by (simp add: send_catch_def)
  have b: "handle_send e srv req = Json 400 (ErrorBody ''Invalid JSON payload'')"
    if "length (concat (r_chunks req)) \<le> 1000000" "concat (r_chunks req) \<noteq> []"
       "r_stream_error req = None" "JSON_parse e (concat (r_chunks req)) = None"
  proof -
    have "readBody (JSON_parse e) (r_chunks req) (r_stream_error req) = Inl ''Invalid JSON payload''"
      using readBody_within_limit [OF that(1,2), of "JSON_parse e"] that(3,4) by simp
    from handle_send_rejected [OF assms(1) this] show ?thesis
      by (simp add: send_catch_def)
  qed
  have c: "handle_send e srv req = Json 400 (ErrorBody ''chatId is required.'')"
    if "length (concat (r_chunks req)) \<le> 1000000" "concat (r_chunks req) \<noteq> []"
       "r_stream_error req = None" "JSON_parse e (concat (r_chunks req)) = Some (JObj [])"
  proof -
    have "readBody (JSON_parse e) (r_chunks req) (r_stream_error req) = Inr (JObj [])"
      using readBody_within_limit [OF that(1,2), of "JSON_parse e"] that(3,4) by simp
    from handle_send_parsed [OF assms(1) this] show ?thesis by simp
  qed
  from a b c show ?thesis unfolding r by blast
qed

theorem send_body_errors_witness:
  "fst (handle_request sample_env (sample_server Ready [])
          (sample_request ''POST'' ''/api/send'' None [replicate 1000001 (CHR ''a'')])) =
     Json 500 (ErrorBody ''Payload too large'')
   \<and> fst (handle_request sample_env (sample_server Ready [])
          (sample_request ''POST'' ''/api/send'' None [''{'', ''oops''])) =
     Json 400 (ErrorBody ''Invalid JSON payload'')
   \<and> fst (handle_request sample_env (sample_server Ready [])
          (sample_request ''POST'' ''/api/send'' None [''{'', ''}''])) =
     Json 400 (ErrorBody ''chatId is required.'')"
proof -
  have s: "status (appState (sample_server Ready [])) = Ready"
    by (simp add: sample_server_def)
  have m: "r_method (sample_request ''POST'' ''/api/send'' None cs) = ''POST''"
          "r_pathname (sample_request ''POST'' ''/api/send'' None cs) = ''/api/send''"
          "r_chunks (sample_request ''POST'' ''/api/send'' None cs) = cs"
          "r_stream_error (sample_request ''POST'' ''/api/send'' None cs) = None" for cs
    by (simp_all add: sample_request_def)
  have p: "JSON_parse sample_env (concat [''{'', ''oops'']) = None"
          "JSON_parse sample_env (concat [''{'', ''}'']) = Some (JObj [])"
    by (simp_all add: sample_env_def sample_parse_def)
  have a: "fst (handle_request sample_env (sample_server Ready [])
          (sample_request ''POST'' ''/api/send'' None [replicate 1000001 (CHR ''a'')])) =
     Json 500 (ErrorBody ''Payload too large'')"
    using send_body_errors [OF s m(1,2), of "[replicate 1000001 (CHR ''a'')]" sample_env]
      sample_chunk_length
    by (simp only: m(3))
  have b: "fst (handle_request sample_env (sample_server Ready [])
          (sample_request ''POST'' ''/api/send'' None [''{'', ''oops''])) =
     Json 400 (ErrorBody ''Invalid JSON payload'')"
    using send_body_errors [OF s m(1,2), of "[''{'', ''oops'']" sample_env] p(1)
    by (simp add: m)
  have c: "fst (handle_request sample_env (sample_server Ready [])
          (sample_request ''POST'' ''/api/send'' None [''{'', ''}''])) =
     Json 400 (ErrorBody ''chatId is required.'')"
    using send_body_errors [OF s m(1,2), of "[''{'', ''}'']" sample_env] p(2)
    by (simp add: m)
  show ?thesis by (intro conjI a b c)
qed

end
